theory Spec2Isabelle
  imports Main "HOL-Library.Word"
begin

unbundle bit_operations_syntax

section \<open>Bytes, failures and the SHA-1 hash\<close>

text \<open>
  Go's \<^verbatim>\<open>[]byte\<close> and the contents of a Go \<^verbatim>\<open>string\<close> are sequences of
  8-bit words. A literal of the source is written \<open>S ''...''\<close>.
\<close>

type_synonym byte = "8 word"
type_synonym bytes = "byte list"
type_synonym uint32 = "32 word"

definition S :: "string \<Rightarrow> bytes" where
  "S s = map of_char s"

text \<open>
  The two ways a function of the source does not return: a run-time panic of an index
  expression (\<^verbatim>\<open>perm_id[0]\<close>, \<^verbatim>\<open>doc["signature"][0]\<close>) and \<^verbatim>\<open>log.Fatalf\<close>,
  which ends the process.
\<close>

datatype failure = IndexOutOfRange | Fatal

text \<open>\<^verbatim>\<open>binary.Write(buf, binary.BigEndian, x)\<close> for a \<^verbatim>\<open>uint32\<close> and a \<^verbatim>\<open>uint64\<close>.\<close>

definition be32 :: "uint32 \<Rightarrow> bytes" where
  "be32 w = [ucast (drop_bit 24 w), ucast (drop_bit 16 w), ucast (drop_bit 8 w), ucast w]"

definition be64 :: "64 word \<Rightarrow> bytes" where
  "be64 w = [ucast (drop_bit 56 w), ucast (drop_bit 48 w), ucast (drop_bit 40 w),
             ucast (drop_bit 32 w), ucast (drop_bit 24 w), ucast (drop_bit 16 w),
             ucast (drop_bit 8 w), ucast w]"

subsection \<open>crypto/sha1 (Go standard library), after FIPS 180-4\<close>

definition rotl :: "nat \<Rightarrow> uint32 \<Rightarrow> uint32" where
  "rotl n w = push_bit n w OR drop_bit (32 - n) w"

fun words_of :: "bytes \<Rightarrow> uint32 list" where
  "words_of (a # b # c # d # r) =
     (push_bit 24 (ucast a) OR push_bit 16 (ucast b) OR push_bit 8 (ucast c) OR ucast d)
       # words_of r"
| "words_of _ = []"

fun expand :: "nat \<Rightarrow> uint32 list \<Rightarrow> uint32 list" where
  "expand 0 ws = ws"
| "expand (Suc n) ws =
     (let l = length ws in
      expand n (ws @ [rotl 1 (ws ! (l - 3) XOR ws ! (l - 8) XOR ws ! (l - 14) XOR ws ! (l - 16))]))"

type_synonym digest = "uint32 \<times> uint32 \<times> uint32 \<times> uint32 \<times> uint32"

fun round1 :: "digest \<Rightarrow> nat \<times> uint32 \<Rightarrow> digest" where
  "round1 (a, b, c, d, e) (t, w) =
     (let f = (if t < 20 then (b AND c) OR (NOT b AND d)
               else if t < 40 then b XOR c XOR d
               else if t < 60 then (b AND c) OR (b AND d) OR (c AND d)
               else b XOR c XOR d);
          k = (if t < 20 then 0x5A827999 else if t < 40 then 0x6ED9EBA1
               else if t < 60 then 0x8F1BBCDC else 0xCA62C1D6)
      in (rotl 5 a + f + e + w + k, a, rotl 30 b, c, d))"

definition block :: "digest \<Rightarrow> bytes \<Rightarrow> digest" where
  "block h p =
     (case h of (h0, h1, h2, h3, h4) \<Rightarrow>
      case foldl round1 h (zip [0..<80] (expand 64 (words_of p))) of (a, b, c, d, e) \<Rightarrow>
        (h0 + a, h1 + b, h2 + c, h3 + d, h4 + e))"

function blocks :: "digest \<Rightarrow> bytes \<Rightarrow> digest" where
  "blocks h p = (if length p < 64 then h else blocks (block h (take 64 p)) (drop 64 p))"
  by pat_completeness auto
termination
  by (relation "measure (\<lambda>(h, p). length p)") auto

declare blocks.simps [simp del]

definition sha1_pad :: "bytes \<Rightarrow> bytes" where
  "sha1_pad m =
     m @ [0x80] @ replicate ((119 - length m mod 64) mod 64) 0 @ be64 (of_nat (8 * length m))"

definition sha1 :: "bytes \<Rightarrow> bytes" where
  "sha1 m =
     (case blocks (0x67452301, 0xEFCDAB89, 0x98BADCFE, 0x10325476, 0xC3D2E1F0) (sha1_pad m)
      of (a, b, c, d, e) \<Rightarrow> be32 a @ be32 b @ be32 c @ be32 d @ be32 e)"

text \<open>
  The streaming interface \<^verbatim>\<open>h := sha1.New(); h.Write(p); h.Sum(nil)\<close>: the state is
  the input written so far, \<^verbatim>\<open>Sum(b)\<close> appends the digest of it to \<^verbatim>\<open>b\<close>.
\<close>

definition sha1_New :: bytes where
  "sha1_New = []"

definition sha1_Write :: "bytes \<Rightarrow> bytes \<Rightarrow> bytes" where
  "sha1_Write h p = h @ p"

definition sha1_Sum :: "bytes \<Rightarrow> bytes \<Rightarrow> bytes" where
  "sha1_Sum h b = b @ sha1 h"

section \<open>Identifier derivation (oniondesc.go)\<close>

text \<open>
  The time period of \<^verbatim>\<open>calcSecretId\<close>:
  \<^verbatim>\<open>(uint32(current_time) + perm_id_byte*86400/256)/86400\<close>, all in \<^verbatim>\<open>uint32\<close>.
  \<^verbatim>\<open>current_time\<close> is an \<^verbatim>\<open>int64\<close>; the conversion keeps its low 32 bits.
\<close>

definition time_period_int :: "uint32 \<Rightarrow> int \<Rightarrow> uint32" where
  "time_period_int perm_id_byte current_time =
     (word_of_int current_time + perm_id_byte * 86400 div 256) div 86400"

definition calcSecretId :: "bytes \<Rightarrow> int \<Rightarrow> byte \<Rightarrow> failure + bytes" where
  "calcSecretId perm_id current_time replica =
     (case perm_id of
        [] \<Rightarrow> Inl IndexOutOfRange
      | b0 # _ \<Rightarrow>
          (let perm_id_byte = (ucast b0 :: uint32);
               time_period = be32 (time_period_int perm_id_byte current_time);
               secret_id_h = sha1_New;
               secret_id_h = sha1_Write secret_id_h time_period;
               secret_id_h = sha1_Write secret_id_h [replica]
           in Inr (sha1_Sum secret_id_h [])))"

definition calcDescriptorId :: "bytes \<Rightarrow> bytes \<Rightarrow> bytes" where
  "calcDescriptorId perm_id secret_id =
     (let desc_id_h = sha1_New;
          desc_id_h = sha1_Write desc_id_h perm_id;
          desc_id_h = sha1_Write desc_id_h secret_id
      in sha1_Sum desc_id_h [])"

text \<open>
  The specification's words for the time period and its serialisation, on natural
  numbers with the 32-bit wrap-around written out.
\<close>

definition timePeriod_spec :: "nat \<Rightarrow> int \<Rightarrow> nat" where
  "timePeriod_spec b0 unixTime =
     ((nat (unixTime mod 2 ^ 32) + b0 * 86400 div 256) mod 2 ^ 32) div 86400"

text \<open>The 32-bit sum that \<open>timePeriod_spec\<close> divides by the length of a day.\<close>

definition timeSum_spec :: "nat \<Rightarrow> int \<Rightarrow> nat" where
  "timeSum_spec b0 unixTime = (nat (unixTime mod 2 ^ 32) + b0 * 86400 div 256) mod 2 ^ 32"

definition bigEndian4_spec :: "nat \<Rightarrow> bytes" where
  "bigEndian4_spec n =
     [of_nat (n div 2 ^ 24 mod 256), of_nat (n div 2 ^ 16 mod 256),
      of_nat (n div 2 ^ 8 mod 256), of_nat (n mod 256)]"

section \<open>The collaborators outside the two source files\<close>

text \<open>
  A tokenized record (\<^verbatim>\<open>torparse.TorDocument\<close>) is a Go map from a field name to the
  field's entries; an entry is a sequence of tokens. Indexing a Go map at an absent key
  gives the zero value, here the empty sequence of entries.
\<close>

type_synonym TorEntry = "bytes list"
type_synonym TorEntries = "TorEntry list"
type_synonym TorDocument = "bytes \<rightharpoonup> TorEntries"

definition field :: "TorDocument \<Rightarrow> bytes \<Rightarrow> TorEntries" where
  "field doc k = (case doc k of None \<Rightarrow> [] | Some es \<Rightarrow> es)"

text \<open>
  The functions the two files call and do not define: the tokenizer and the key codec
  (packages \<^verbatim>\<open>torparse\<close> and \<^verbatim>\<open>pkcs1\<close>), the helpers of package
  \<^verbatim>\<open>onionutil\<close> defined in other files, and the functions of Go's standard library
  (\<^verbatim>\<open>net\<close>, \<^verbatim>\<open>strconv\<close>, \<^verbatim>\<open>fmt\<close>, \<^verbatim>\<open>time\<close>, \<^verbatim>\<open>encoding/pem\<close>). They are
  parameters of the model. A Go result \<^verbatim>\<open>(v, err)\<close> is \<open>Some v\<close> when \<^verbatim>\<open>err == nil\<close>
  and \<open>None\<close> otherwise; \<^verbatim>\<open>net.ParseIP\<close> gives \<open>None\<close> for \<^verbatim>\<open>nil\<close>. A key
  \<^verbatim>\<open>*rsa.PublicKey\<close> is a value of an opaque type \<open>'k\<close>, or \<open>None\<close> for \<^verbatim>\<open>nil\<close>.
\<close>

record 'k ext =
  ParseTorDocument :: "bytes \<Rightarrow> TorDocument list \<times> bytes"
  FJoined :: "TorEntries \<Rightarrow> bytes"
  Base32Encode :: "bytes \<Rightarrow> bytes"
  Base32Decode :: "bytes \<Rightarrow> bytes option"
  InetPortFromByteString :: "bytes \<Rightarrow> 16 word option"
  CalcPermanentId :: "'k option \<Rightarrow> bytes \<times> bool"
  Hash :: "bytes \<Rightarrow> bytes"
  EncodePublicKeyDER :: "'k option \<Rightarrow> bytes option"
  DecodePublicKeyDER :: "bytes \<Rightarrow> ('k \<times> bytes) option"
  ParseIP :: "bytes \<Rightarrow> bytes option"
  IP_String :: "bytes \<Rightarrow> bytes"
  ParseInt :: "bytes \<Rightarrow> int option"
  Sprint_int :: "int \<Rightarrow> bytes"
  Sprint_uint16 :: "16 word \<Rightarrow> bytes"
  Time_Format :: "int \<Rightarrow> bytes"
  pem_EncodeToMemory :: "string \<Rightarrow> bytes \<Rightarrow> bytes"

section \<open>Introduction points (intropoint.go)\<close>

record 'k IntroductionPoint =
  Identity :: bytes
  InternetAddress :: bytes
  OnionPort :: "16 word"
  OnionKey :: "'k option"
  ServiceKey :: "'k option"

text \<open>
  The body of the loop of \<^verbatim>\<open>ParseIntroPoints\<close> for one record: \<open>Inl\<close> the message
  logged before \<^verbatim>\<open>continue\<close>, \<open>Inr\<close> the introduction point appended.
\<close>

definition parseIntroPoint :: "'k ext \<Rightarrow> TorDocument \<Rightarrow> string + 'k IntroductionPoint" where
  "parseIntroPoint X doc =
     (if doc (S ''introduction-point'') = None
      then Inl ''Got a document that is not an introduction point''
      else
       (case Base32Decode X (FJoined X (field doc (S ''introduction-point''))) of
          None \<Rightarrow> Inl ''The IP has invalid idenity. Skipping''
        | Some identity \<Rightarrow>
       (case ParseIP X (FJoined X (field doc (S ''ip-address''))) of
          None \<Rightarrow> Inl ''Not a valid Internet address for an IntroPoint''
        | Some address \<Rightarrow>
       (case InetPortFromByteString X (FJoined X (field doc (S ''onion-port''))) of
          None \<Rightarrow> Inl ''Error parsing IP port''
        | Some onion_port \<Rightarrow>
       (case DecodePublicKeyDER X (FJoined X (field doc (S ''onion-key''))) of
          None \<Rightarrow> Inl ''Decoding DER sequence of PulicKey has failed''
        | Some (onion_key, _) \<Rightarrow>
       (case DecodePublicKeyDER X (FJoined X (field doc (S ''service-key''))) of
          None \<Rightarrow> Inl ''Decoding DER sequence of PulicKey has failed''
        | Some (service_key, _) \<Rightarrow>
            Inr \<lparr>Identity = identity, InternetAddress = address, OnionPort = onion_port,
                 OnionKey = Some onion_key, ServiceKey = Some service_key\<rparr>))))))"

text \<open>The loop over the records, with the result list and the log so far.\<close>

fun parseIntroPointDocs ::
  "'k ext \<Rightarrow> TorDocument list \<Rightarrow> 'k IntroductionPoint list \<times> string list
     \<Rightarrow> 'k IntroductionPoint list \<times> string list" where
  "parseIntroPointDocs X [] (ips, log) = (ips, log)"
| "parseIntroPointDocs X (doc # docs) (ips, log) =
     (case parseIntroPoint X doc of
        Inl msg \<Rightarrow> parseIntroPointDocs X docs (ips, log @ [msg])
      | Inr ip \<Rightarrow> parseIntroPointDocs X docs (ips @ [ip], log))"

text \<open>\<^verbatim>\<open>ParseIntroPoints\<close>: the introduction points, the rest of the input, and the log.\<close>

definition ParseIntroPoints ::
  "'k ext \<Rightarrow> bytes \<Rightarrow> 'k IntroductionPoint list \<times> bytes \<times> string list" where
  "ParseIntroPoints X ips_str =
     (case ParseTorDocument X ips_str of (docs, rest) \<Rightarrow>
       (case parseIntroPointDocs X docs ([], []) of (ips, log) \<Rightarrow> (ips, rest, log)))"

definition NL :: bytes where
  "NL = [0x0A]"

text \<open>\<^verbatim>\<open>Encode\<close>; \<^verbatim>\<open>log.Fatalf\<close> ends the process.\<close>

definition Encode :: "'k ext \<Rightarrow> 'k IntroductionPoint \<Rightarrow> failure + bytes" where
  "Encode X ip =
     (let w = [];
          w = w @ S ''introduction-point '' @ Base32Encode X (Identity ip) @ NL;
          w = w @ S ''ip-address '' @ IP_String X (InternetAddress ip) @ NL;
          w = w @ S ''onion-port '' @ Sprint_uint16 X (OnionPort ip) @ NL
      in (case EncodePublicKeyDER X (OnionKey ip) of
            None \<Rightarrow> Inl Fatal
          | Some onionKeyDER \<Rightarrow>
         (let onionKeyPEM = pem_EncodeToMemory X ''RSA PUBLIC KEY'' onionKeyDER;
              w = w @ S ''onion-key'' @ NL @ onionKeyPEM
          in (case EncodePublicKeyDER X (ServiceKey ip) of
                None \<Rightarrow> Inl Fatal
              | Some serviceKeyDER \<Rightarrow>
             (let serviceKeyPEM = pem_EncodeToMemory X ''RSA PUBLIC KEY'' serviceKeyDER;
                  w = w @ S ''service-key'' @ NL @ serviceKeyPEM
              in Inr w)))))"

fun MakeIntroPointsDocument :: "'k ext \<Rightarrow> 'k IntroductionPoint list \<Rightarrow> failure + bytes" where
  "MakeIntroPointsDocument X [] = Inr []"
| "MakeIntroPointsDocument X (ip # ips) =
     (case Encode X ip of
        Inl f \<Rightarrow> Inl f
      | Inr e \<Rightarrow>
          (case MakeIntroPointsDocument X ips of
             Inl f \<Rightarrow> Inl f
           | Inr r \<Rightarrow> Inr (e @ r)))"

section \<open>Descriptors (oniondesc.go)\<close>

text \<open>\<^verbatim>\<open>PublicationTime\<close> is kept as its Unix time in seconds.\<close>

record 'k OnionDescriptor =
  DescId :: bytes
  Version :: int
  PermanentKey :: "'k option"
  SecretIdPart :: bytes
  PublicationTime :: int
  ProtocolVersions :: "int list"
  IntroductionPoints :: "'k IntroductionPoint list"
  Signature :: bytes



text \<open>\<^verbatim>\<open>strings.Join\<close>.\<close>

fun Join :: "bytes list \<Rightarrow> bytes \<Rightarrow> bytes" where
  "Join [] sep = []"
| "Join [x] sep = x"
| "Join (x # y # xs) sep = x @ sep @ Join (y # xs) sep"

definition Body :: "'k ext \<Rightarrow> 'k OnionDescriptor \<Rightarrow> failure + bytes" where
  "Body X desc =
     (case EncodePublicKeyDER X (PermanentKey desc) of
        None \<Rightarrow> Inl Fatal
      | Some perm_pk_der \<Rightarrow>
     (let w = [];
          w = w @ S ''rendezvous-service-descriptor '' @ Base32Encode X (DescId desc) @ NL;
          w = w @ S ''version '' @ Sprint_int X (Version desc) @ NL;
          w = w @ S ''permanent-key'' @ NL @ pem_EncodeToMemory X ''RSA PUBLIC KEY'' perm_pk_der;
          w = w @ S ''secret-id-part '' @ Base32Encode X (SecretIdPart desc) @ NL;
          w = w @ S ''publication-time '' @ Time_Format X (PublicationTime desc) @ NL;
          protoversions_strs = map (Sprint_int X) (ProtocolVersions desc);
          w = w @ S ''protocol-versions '' @ Join protoversions_strs (S '','') @ NL
      in (if length (IntroductionPoints desc) \<noteq> 0
          then (case MakeIntroPointsDocument X (IntroductionPoints desc) of
                  Inl f \<Rightarrow> Inl f
                | Inr intro_block \<Rightarrow>
                    Inr (w @ S ''introduction-points'' @ NL
                           @ pem_EncodeToMemory X ''MESSAGE'' intro_block
                           @ S ''signature'' @ NL))
          else Inr (w @ S ''signature'' @ NL))))"

definition encodeSignature :: "'k ext \<Rightarrow> bytes \<Rightarrow> bytes" where
  "encodeSignature X signature = pem_EncodeToMemory X ''SIGNATURE'' signature"

definition CalcDescriptorBodyDigest :: "'k ext \<Rightarrow> bytes \<Rightarrow> bytes" where
  "CalcDescriptorBodyDigest X descBody = Hash X descBody"

text \<open>
  \<^verbatim>\<open>Sign\<close>. The callback returns the signature and an error, \<open>None\<close> for \<^verbatim>\<open>nil\<close>.
\<close>

definition Sign ::
  "'k ext \<Rightarrow> 'k OnionDescriptor \<Rightarrow> (bytes \<Rightarrow> bytes \<times> string option) \<Rightarrow> failure + bytes" where
  "Sign X desc doSign =
     (case Body X desc of
        Inl f \<Rightarrow> Inl f
      | Inr descBody \<Rightarrow>
          (let descDigest = CalcDescriptorBodyDigest X descBody
           in case doSign descDigest of
                (signature, Some err) \<Rightarrow> Inl Fatal
              | (signature, None) \<Rightarrow> Inr (descBody @ encodeSignature X signature)))"

text \<open>
  The body of the loop of \<^verbatim>\<open>ParseOnionDescriptors\<close> for one record. A record is
  skipped (\<open>Skip\<close>) or appended (\<open>Got\<close>), in both cases with the messages logged on
  the way, those of \<^verbatim>\<open>ParseIntroPoints\<close> among them. \<^verbatim>\<open>doc["signature"][0]\<close> is an index
  expression on the entries of the field: on no entries it panics.
\<close>

datatype 'a outcome = Skip "string list" | Got 'a "string list"

definition parseOnionDescriptor ::
  "'k ext \<Rightarrow> TorDocument \<Rightarrow> failure + 'k OnionDescriptor outcome" where
  "parseOnionDescriptor X doc =
     (if doc (S ''rendezvous-service-descriptor'') = None
      then Inr (Skip [''Got a document that is not an onion service''])
      else
       (let descId = FJoined X (field doc (S ''rendezvous-service-descriptor'')) in
       (case ParseInt X (FJoined X (field doc (S ''version''))) of
          None \<Rightarrow> Inr (Skip [''Error parsing descriptor version''])
        | Some version \<Rightarrow>
       (case DecodePublicKeyDER X (FJoined X (field doc (S ''permanent-key''))) of
          None \<Rightarrow> Inr (Skip [''Decoding DER sequence of PulicKey has failed''])
        | Some (permanent_key, _) \<Rightarrow>
       (case ParseIntroPoints X (FJoined X (field doc (S ''introduction-points''))) of
          (ips, _, log) \<Rightarrow>
       (case field doc (S ''signature'') of
          [] \<Rightarrow> Inl IndexOutOfRange
        | sig0 # _ \<Rightarrow>
            (if length sig0 < 1 then Inr (Skip (log @ [''Empty signature'']))
             else Inr (Got \<lparr>DescId = descId, Version = version,
                            PermanentKey = Some permanent_key, SecretIdPart = [],
                            PublicationTime = - 62135596800, ProtocolVersions = [],
                            IntroductionPoints = ips,
                            Signature = FJoined X (field doc (S ''signature''))\<rparr> log))))))))"

fun parseOnionDescriptorDocs ::
  "'k ext \<Rightarrow> TorDocument list \<Rightarrow> 'k OnionDescriptor list \<times> string list
     \<Rightarrow> failure + 'k OnionDescriptor list \<times> string list" where
  "parseOnionDescriptorDocs X [] (descs, log) = Inr (descs, log)"
| "parseOnionDescriptorDocs X (doc # docs) (descs, log) =
     (case parseOnionDescriptor X doc of
        Inl f \<Rightarrow> Inl f
      | Inr (Skip msgs) \<Rightarrow> parseOnionDescriptorDocs X docs (descs, log @ msgs)
      | Inr (Got desc l) \<Rightarrow> parseOnionDescriptorDocs X docs (descs @ [desc], log @ l))"

definition ParseOnionDescriptors ::
  "'k ext \<Rightarrow> bytes \<Rightarrow> failure + 'k OnionDescriptor list \<times> bytes \<times> string list" where
  "ParseOnionDescriptors X descs_str =
     (case ParseTorDocument X descs_str of (docs, rest) \<Rightarrow>
       (case parseOnionDescriptorDocs X docs ([], []) of
          Inl f \<Rightarrow> Inl f
        | Inr (descs, log) \<Rightarrow> Inr (descs, rest, log)))"

section \<open>An instance of the collaborators\<close>

text \<open>
  The theorems below hold for every choice of the collaborators. To evaluate them at
  concrete inputs the collaborators are instantiated: the functions of Go's standard
  library by what their documentation says on the inputs used here, the functions of this
  repository that are not in the two files from the specification.
\<close>

subsection \<open>strconv and fmt: decimal numbers\<close>

definition is_digit :: "byte \<Rightarrow> bool" where
  "is_digit c = (48 \<le> unat c \<and> unat c \<le> 57)"

function decimal :: "nat \<Rightarrow> bytes" where
  "decimal n = (if n < 10 then [of_nat (48 + n)]
                else decimal (n div 10) @ [of_nat (48 + n mod 10)])"
  by pat_completeness auto
termination
  by (relation "measure id") auto

declare decimal.simps [simp del]

definition digits_value :: "bytes \<Rightarrow> nat" where
  "digits_value s = foldl (\<lambda>a c. 10 * a + (unat c - 48)) 0 s"

definition parse_digits :: "bytes \<Rightarrow> nat option" where
  "parse_digits s = (if s \<noteq> [] \<and> list_all is_digit s then Some (digits_value s) else None)"

text \<open>\<^verbatim>\<open>fmt\<close>'s \<^verbatim>\<open>%d\<close> of an \<^verbatim>\<open>int\<close> and \<^verbatim>\<open>%v\<close> of a \<^verbatim>\<open>uint16\<close>.\<close>

definition fmt_int :: "int \<Rightarrow> bytes" where
  "fmt_int i = (if i < 0 then 45 # decimal (nat (- i)) else decimal (nat i))"

definition fmt_uint16 :: "16 word \<Rightarrow> bytes" where
  "fmt_uint16 p = decimal (unat p)"

text \<open>\<^verbatim>\<open>strconv.ParseInt(s, 10, 0)\<close>: an optional sign, decimal digits, the range of \<^verbatim>\<open>int64\<close>.\<close>

definition strconv_ParseInt :: "bytes \<Rightarrow> int option" where
  "strconv_ParseInt s =
     (case s of
        [] \<Rightarrow> None
      | c # r \<Rightarrow>
          (if c = 45
           then (case parse_digits r of
                   None \<Rightarrow> None
                 | Some n \<Rightarrow> if n \<le> 2 ^ 63 then Some (- int n) else None)
           else (case parse_digits (if c = 43 then r else s) of
                   None \<Rightarrow> None
                 | Some n \<Rightarrow> if n < 2 ^ 63 then Some (int n) else None)))"

text \<open>
  Modelled from the spec: \<^verbatim>\<open>InetPortFromByteString\<close> of package \<^verbatim>\<open>onionutil\<close>, which is
  not in the two files. The field is ``parsed as an unsigned 16-bit decimal port;
  out-of-range or non-numeric rejects the record''.
\<close>

definition port_of_bytes :: "bytes \<Rightarrow> 16 word option" where
  "port_of_bytes s =
     (case parse_digits s of
        None \<Rightarrow> None
      | Some n \<Rightarrow> if n < 65536 then Some (of_nat n) else None)"

subsection \<open>Base 32 and base 64\<close>

definition b32c :: "nat \<Rightarrow> byte" where
  "b32c n = (if n < 26 then of_nat (97 + n) else of_nat (24 + n))"

definition b32i :: "byte \<Rightarrow> nat option" where
  "b32i c = (if 97 \<le> unat c \<and> unat c \<le> 122 then Some (unat c - 97)
             else if 65 \<le> unat c \<and> unat c \<le> 90 then Some (unat c - 65)
             else if 50 \<le> unat c \<and> unat c \<le> 55 then Some (unat c - 24)
             else None)"

text \<open>The eight characters of five bytes, and the five bytes of eight 5-bit values.\<close>

definition b32_chars :: "byte \<Rightarrow> byte \<Rightarrow> byte \<Rightarrow> byte \<Rightarrow> byte \<Rightarrow> bytes" where
  "b32_chars a b c d e =
     (let a = unat a; b = unat b; c = unat c; d = unat d; e = unat e
      in [b32c (a div 8), b32c (a mod 8 * 4 + b div 64), b32c (b div 2 mod 32),
          b32c (b mod 2 * 16 + c div 16), b32c (c mod 16 * 2 + d div 128),
          b32c (d div 4 mod 32), b32c (d mod 4 * 8 + e div 32), b32c (e mod 32)])"

fun b32_bytes :: "nat list \<Rightarrow> bytes" where
  "b32_bytes [i0, i1, i2, i3, i4, i5, i6, i7] =
     [of_nat (i0 * 8 + i1 div 4), of_nat (i1 mod 4 * 64 + i2 * 2 + i3 div 16),
      of_nat (i3 mod 16 * 16 + i4 div 2), of_nat (i4 mod 2 * 128 + i5 * 4 + i6 div 8),
      of_nat (i6 mod 8 * 32 + i7)]"
| "b32_bytes _ = []"

text \<open>
  Modelled from the spec: \<^verbatim>\<open>Base32Encode\<close> and \<^verbatim>\<open>Base32Decode\<close> of package
  \<^verbatim>\<open>onionutil\<close>, which are not in the two files: identifiers are ``base-32 encoded in
  text form'' (RFC 4648 with padding, written in lower case as onion addresses are; the
  decoder reads both cases).
\<close>

fun base32_encode :: "bytes \<Rightarrow> bytes" where
  "base32_encode (a # b # c # d # e # r) = b32_chars a b c d e @ base32_encode r"
| "base32_encode [a, b, c, d] = take 7 (b32_chars a b c d 0) @ [61]"
| "base32_encode [a, b, c] = take 5 (b32_chars a b c 0 0) @ [61, 61, 61]"
| "base32_encode [a, b] = take 4 (b32_chars a b 0 0 0) @ [61, 61, 61, 61]"
| "base32_encode [a] = take 2 (b32_chars a 0 0 0 0) @ [61, 61, 61, 61, 61, 61]"
| "base32_encode [] = []"

definition b32_ungroup :: "bytes \<Rightarrow> bytes option" where
  "b32_ungroup g =
     (let d = takeWhile (\<lambda>c. c \<noteq> 61) g;
          k = length d
      in if \<not> list_all (\<lambda>c. c = 61) (drop k g)
            \<or> \<not> (k = 2 \<or> k = 4 \<or> k = 5 \<or> k = 7 \<or> k = 8)
            \<or> \<not> list_all (\<lambda>c. b32i c \<noteq> None) d
         then None
         else Some (take (5 * k div 8)
                     (b32_bytes (take 8 (map (\<lambda>c. the (b32i c)) d @ [0, 0, 0, 0, 0, 0])))))"

fun base32_decode :: "bytes \<Rightarrow> bytes option" where
  "base32_decode [] = Some []"
| "base32_decode (c0 # c1 # c2 # c3 # c4 # c5 # c6 # c7 # r) =
     (case b32_ungroup [c0, c1, c2, c3, c4, c5, c6, c7] of
        None \<Rightarrow> None
      | Some g \<Rightarrow>
          (if length g < 5 \<and> r \<noteq> [] then None
           else (case base32_decode r of
                   None \<Rightarrow> None
                 | Some t \<Rightarrow> Some (g @ t))))"
| "base32_decode _ = None"

definition be_value :: "bytes \<Rightarrow> nat" where
  "be_value s = foldl (\<lambda>a c. 256 * a + unat c) 0 s"

text \<open>\<^verbatim>\<open>encoding/base64\<close>, the standard encoding with padding, as \<^verbatim>\<open>encoding/pem\<close> uses it.\<close>

definition b64c :: "nat \<Rightarrow> byte" where
  "b64c n = (if n < 26 then of_nat (65 + n) else if n < 52 then of_nat (71 + n)
             else if n < 62 then of_nat (n - 4) else if n = 62 then 43 else 47)"

definition b64i :: "byte \<Rightarrow> nat option" where
  "b64i c = (if 65 \<le> unat c \<and> unat c \<le> 90 then Some (unat c - 65)
             else if 97 \<le> unat c \<and> unat c \<le> 122 then Some (unat c - 71)
             else if 48 \<le> unat c \<and> unat c \<le> 57 then Some (unat c + 4)
             else if unat c = 43 then Some 62
             else if unat c = 47 then Some 63
             else None)"

fun base64_encode :: "bytes \<Rightarrow> bytes" where
  "base64_encode (a # b # c # r) =
     (let n = unat a * 65536 + unat b * 256 + unat c
      in [b64c (n div 262144), b64c (n div 4096 mod 64), b64c (n div 64 mod 64), b64c (n mod 64)]
           @ base64_encode r)"
| "base64_encode [a, b] =
     (let n = unat a * 65536 + unat b * 256
      in [b64c (n div 262144), b64c (n div 4096 mod 64), b64c (n div 64 mod 64), 61])"
| "base64_encode [a] =
     (let n = unat a * 65536
      in [b64c (n div 262144), b64c (n div 4096 mod 64), 61, 61])"
| "base64_encode [] = []"

fun base64_decode :: "bytes \<Rightarrow> bytes option" where
  "base64_decode [] = Some []"
| "base64_decode (a # b # c # d # r) =
     (case (b64i a, b64i b) of
        (Some x, Some y) \<Rightarrow>
          (if c = 61 \<and> d = 61 \<and> r = [] then Some [of_nat ((x * 64 + y) div 16)]
           else (case b64i c of
                   None \<Rightarrow> None
                 | Some z \<Rightarrow>
                     (let n = x * 4096 + y * 64 + z
                      in if d = 61 \<and> r = []
                         then Some [of_nat (n div 1024), of_nat (n div 4 mod 256)]
                         else (case b64i d of
                                 None \<Rightarrow> None
                               | Some u \<Rightarrow>
                                   (case base64_decode r of
                                      None \<Rightarrow> None
                                    | Some t \<Rightarrow>
                                        Some ([of_nat (n div 1024), of_nat (n div 4 mod 256),
                                               of_nat ((n * 64 + u) mod 256)] @ t))))))
      | _ \<Rightarrow> None)"
| "base64_decode _ = None"

subsection \<open>encoding/pem\<close>

function wrap64 :: "bytes \<Rightarrow> bytes" where
  "wrap64 s = (if length s \<le> 64 then (if s = [] then [] else s @ NL)
               else take 64 s @ NL @ wrap64 (drop 64 s))"
  by pat_completeness auto
termination
  by (relation "measure length") auto

declare wrap64.simps [simp del]

text \<open>\<^verbatim>\<open>pem.EncodeToMemory\<close> of a block with a type and bytes and no headers.\<close>

definition pem_encode :: "string \<Rightarrow> bytes \<Rightarrow> bytes" where
  "pem_encode ty payload =
     S ''-----BEGIN '' @ S ty @ S ''-----'' @ NL
       @ wrap64 (base64_encode payload)
       @ S ''-----END '' @ S ty @ S ''-----'' @ NL"

subsection \<open>The tokenizer\<close>

text \<open>\<^verbatim>\<open>bytes.Split\<close> at one separator byte.\<close>

fun split_on :: "byte \<Rightarrow> bytes \<Rightarrow> bytes list" where
  "split_on c [] = [[]]"
| "split_on c (x # xs) =
     (let r = split_on c xs in if x = c then [] # r else (x # hd r) # tl r)"

definition is_prefix :: "bytes \<Rightarrow> bytes \<Rightarrow> bool" where
  "is_prefix p s = (take (length p) s = p)"

text \<open>
  The lines of an armored block after its \<^verbatim>\<open>BEGIN\<close> line: the payload lines up to the
  \<^verbatim>\<open>END\<close> line, and the lines after it.
\<close>

fun pem_lines :: "bytes list \<Rightarrow> (bytes list \<times> bytes list) option" where
  "pem_lines [] = None"
| "pem_lines (l # ls) =
     (if is_prefix (S ''-----END '') l then Some ([], ls)
      else (case pem_lines ls of
              None \<Rightarrow> None
            | Some (p, r) \<Rightarrow> Some (l # p, r)))"

text \<open>
  Modelled from the spec: \<^verbatim>\<open>torparse.ParseTorDocument\<close> and \<^verbatim>\<open>FJoined\<close>, which are not
  in the two files. The tokenizer ``splits a raw text blob into a sequence of records, each
  a mapping from field name to one or more token groups, plus any unconsumed trailing
  bytes''; the format is ``field-keyed, line-oriented'', ``each logical record begins with a
  marker field and continues until the next marker or end of input'', and ``binary
  payloads are embedded as PEM-armored blocks''. A line is a field name followed by tokens
  separated by single spaces; an armored block after a line adds its decoded bytes to the
  line's tokens. The name of the first field is the marker. Tokenizing stops at an empty
  line and at a block that does not end or whose payload is not base 64: the lines from
  there on are the unconsumed bytes.
\<close>

function fields_of :: "bytes list \<Rightarrow> (bytes \<times> TorEntry) list \<times> bytes list" where
  "fields_of [] = ([], [])"
| "fields_of (l # ls) =
     (if l = [] then ([], l # ls)
      else
       (let toks = split_on 32 l in
        (case ls of
           [] \<Rightarrow> ([(hd toks, tl toks)], [])
         | b # bs \<Rightarrow>
             (if is_prefix (S ''-----BEGIN '') b
              then (case pem_lines bs of
                      None \<Rightarrow> ([(hd toks, tl toks)], ls)
                    | Some (p, r) \<Rightarrow>
                        (case base64_decode (concat p) of
                           None \<Rightarrow> ([(hd toks, tl toks)], ls)
                         | Some payload \<Rightarrow>
                             (case fields_of r of
                                (fs, rest) \<Rightarrow> ((hd toks, tl toks @ [payload]) # fs, rest))))
              else (case fields_of ls of
                      (fs, rest) \<Rightarrow> ((hd toks, tl toks) # fs, rest))))))"
  by pat_completeness auto
termination
proof -
  have shorter: "length r < length ls" if "pem_lines ls = Some (p, r)"
    for ls :: "bytes list" and p r
    using that by (induction ls arbitrary: p r) (auto split: if_splits option.splits)
  show ?thesis
    by (relation "measure length") (auto dest: shorter)
qed

declare fields_of.simps [simp del]

definition add_field :: "TorDocument \<Rightarrow> bytes \<Rightarrow> TorEntry \<Rightarrow> TorDocument" where
  "add_field doc k e = doc(k \<mapsto> field doc k @ [e])"

fun docs_of :: "bytes \<Rightarrow> (bytes \<times> TorEntry) list \<Rightarrow> TorDocument \<Rightarrow> TorDocument list" where
  "docs_of marker [] cur = [cur]"
| "docs_of marker ((k, e) # fs) cur =
     (if k = marker then cur # docs_of marker fs (add_field Map.empty k e)
      else docs_of marker fs (add_field cur k e))"

text \<open>
  Modelled from the spec: \<^verbatim>\<open>torparse.ParseTorDocument\<close>, from the fields above: the
  records, each begun by the marker field, and the unconsumed lines joined again.
\<close>

definition tokenize :: "bytes \<Rightarrow> TorDocument list \<times> bytes" where
  "tokenize text =
     (case fields_of (split_on 10 text) of
        (fs, rest) \<Rightarrow>
          ((case fs of
              [] \<Rightarrow> []
            | (k, e) # fs' \<Rightarrow> docs_of k fs' (add_field Map.empty k e)),
           Join rest NL))"

text \<open>
  Modelled from the spec: \<^verbatim>\<open>FJoined\<close> of package \<^verbatim>\<open>torparse\<close>, the tokens of the first
  entry of a field joined by single spaces; a field that is absent gives no bytes, as the
  introduction points of a descriptor may be absent.
\<close>

definition joined_first :: "TorEntries \<Rightarrow> bytes" where
  "joined_first es = (case es of [] \<Rightarrow> [] | e # _ \<Rightarrow> Join e (S '' ''))"

subsection \<open>The key codec and the key identity\<close>

function be_bytes :: "nat \<Rightarrow> bytes" where
  "be_bytes n = (if n = 0 then [] else be_bytes (n div 256) @ [of_nat (n mod 256)])"
  by pat_completeness auto
termination
  by (relation "measure id") auto

declare be_bytes.simps [simp del]

definition der_len :: "nat \<Rightarrow> bytes" where
  "der_len n = (if n < 128 then [of_nat n]
                else (let b = be_bytes n in of_nat (128 + length b) # b))"

definition der_integer :: "nat \<Rightarrow> bytes" where
  "der_integer n =
     (let b = be_bytes n;
          c = (if b = [] \<or> 128 \<le> unat (hd b) then 0 # b else b)
      in 2 # der_len (length c) @ c)"

definition der_read_len :: "bytes \<Rightarrow> (nat \<times> bytes) option" where
  "der_read_len s =
     (case s of
        [] \<Rightarrow> None
      | b # r \<Rightarrow>
          (if unat b < 128 then Some (unat b, r)
           else (let k = unat b - 128
                 in if k = 0 \<or> length r < k then None
                    else Some (be_value (take k r), drop k r))))"

definition der_read :: "byte \<Rightarrow> bytes \<Rightarrow> (bytes \<times> bytes) option" where
  "der_read tag s =
     (case s of
        [] \<Rightarrow> None
      | t # r \<Rightarrow>
          (if t \<noteq> tag then None
           else (case der_read_len r of
                   None \<Rightarrow> None
                 | Some (l, r') \<Rightarrow>
                     if length r' < l then None else Some (take l r', drop l r'))))"

definition der_read_integer :: "bytes \<Rightarrow> (nat \<times> bytes) option" where
  "der_read_integer s =
     (case der_read 2 s of
        None \<Rightarrow> None
      | Some (c, r) \<Rightarrow> if c = [] \<or> 128 \<le> unat (hd c) then None else Some (be_value c, r))"

text \<open>
  Modelled from the spec: the key codec (package \<^verbatim>\<open>pkcs1\<close>), which is not in the two
  files: it ``encodes/decodes an RSA public key to/from a DER byte sequence''. A key is its
  modulus and its public exponent, and the DER sequence is that of PKCS #1: a SEQUENCE of
  the two INTEGERs. Encoding no key is an error.
\<close>

type_synonym rsa_key = "nat \<times> nat"

definition der_encode_key :: "rsa_key option \<Rightarrow> bytes option" where
  "der_encode_key k =
     (case k of
        None \<Rightarrow> None
      | Some (n, e) \<Rightarrow>
          (let c = der_integer n @ der_integer e in Some (48 # der_len (length c) @ c)))"

definition der_decode_key :: "bytes \<Rightarrow> (rsa_key \<times> bytes) option" where
  "der_decode_key s =
     (case der_read 48 s of
        None \<Rightarrow> None
      | Some (c, rest) \<Rightarrow>
          (case der_read_integer c of
             None \<Rightarrow> None
           | Some (n, c') \<Rightarrow>
               (case der_read_integer c' of
                  None \<Rightarrow> None
                | Some (e, c'') \<Rightarrow> if c'' = [] then Some ((n, e), rest) else None)))"

text \<open>
  Modelled from the spec: \<^verbatim>\<open>CalcPermanentId\<close> and \<^verbatim>\<open>Hash\<close> of package \<^verbatim>\<open>onionutil\<close>,
  which are not in the two files. The permanent id is the ``20-byte permanent identity
  fingerprint (a hash of the key material)'', a ``hash of the key's DER encoding''; the
  digest of the body is a ``cryptographic hash of the exact unsigned document bytes''.
\<close>

definition permanent_id :: "rsa_key option \<Rightarrow> bytes \<times> bool" where
  "permanent_id k =
     (case der_encode_key k of
        None \<Rightarrow> ([], True)
      | Some der \<Rightarrow> (sha1 der, False))"

subsection \<open>net and time\<close>

definition v4InV6Prefix :: bytes where
  "v4InV6Prefix = [0, 0, 0, 0, 0, 0, 0, 0, 0, 0, 0xff, 0xff]"

definition parse_octet :: "bytes \<Rightarrow> byte option" where
  "parse_octet s =
     (case parse_digits s of
        None \<Rightarrow> None
      | Some n \<Rightarrow> if n < 256 \<and> (length s = 1 \<or> hd s \<noteq> 48) then Some (of_nat n) else None)"

text \<open>
  \<^verbatim>\<open>net.ParseIP\<close> and \<^verbatim>\<open>IP.String\<close> on IPv4 addresses in dotted decimal form; the
  result of \<^verbatim>\<open>ParseIP\<close> has 16 bytes. IPv6 text is not covered by this instance.
\<close>

definition parse_ipv4 :: "bytes \<Rightarrow> bytes option" where
  "parse_ipv4 s =
     (case map parse_octet (split_on 46 s) of
        [Some a, Some b, Some c, Some d] \<Rightarrow> Some (v4InV6Prefix @ [a, b, c, d])
      | _ \<Rightarrow> None)"

definition ipv4_string :: "bytes \<Rightarrow> bytes" where
  "ipv4_string ip =
     (let q = (if length ip = 16 \<and> take 12 ip = v4InV6Prefix then drop 12 ip else ip)
      in if length q = 4 then Join (map (\<lambda>b. decimal (unat b)) q) (S ''.'')
         else if ip = [] then S ''<nil>'' else S ''?'')"


definition pad2 :: "int \<Rightarrow> bytes" where
  "pad2 i = (if i < 10 then 48 # decimal (nat i) else decimal (nat i))"

definition pad4 :: "int \<Rightarrow> bytes" where
  "pad4 i = (if i < 10 then [48, 48, 48] @ decimal (nat i)
             else if i < 100 then [48, 48] @ decimal (nat i)
             else if i < 1000 then [48] @ decimal (nat i)
             else decimal (nat i))"

text \<open>
  The civil date (year, month, day) of a day number counted from 1970-01-01, in the
  proleptic Gregorian calendar, in stages: the 400-year era, the day of the era, the year
  of the era, the day of the year counted from March 1, and the month counted from March.
\<close>

definition ymd_of_mp :: "int \<Rightarrow> int \<Rightarrow> int \<Rightarrow> int \<times> int \<times> int" where
  "ymd_of_mp y0 doy mp =
     (y0 + (if mp < 10 then 0 else 1),
      (if mp < 10 then mp + 3 else mp - 9),
      doy - (153 * mp + 2) div 5 + 1)"

definition ymd_of_doy :: "int \<Rightarrow> int \<Rightarrow> int \<times> int \<times> int" where
  "ymd_of_doy y0 doy = ymd_of_mp y0 doy ((5 * doy + 2) div 153)"

definition ymd_of_yoe :: "int \<Rightarrow> int \<Rightarrow> int \<Rightarrow> int \<times> int \<times> int" where
  "ymd_of_yoe era doe yoe =
     ymd_of_doy (yoe + era * 400) (doe - (365 * yoe + yoe div 4 - yoe div 100))"

definition ymd_of_doe :: "int \<Rightarrow> int \<Rightarrow> int \<times> int \<times> int" where
  "ymd_of_doe era doe =
     ymd_of_yoe era doe ((doe - doe div 1460 + doe div 36524 - doe div 146096) div 365)"

definition ymd_of_era :: "int \<Rightarrow> int \<Rightarrow> int \<times> int \<times> int" where
  "ymd_of_era z era = ymd_of_doe era (z - era * 146097)"

definition civil_from_days :: "int \<Rightarrow> int \<times> int \<times> int" where
  "civil_from_days days = ymd_of_era (days + 719468) ((days + 719468) div 146097)"

definition format_clock :: "int \<Rightarrow> bytes" where
  "format_clock secs =
     pad2 (secs div 3600) @ S '':'' @ pad2 (secs mod 3600 div 60) @ S '':'' @ pad2 (secs mod 60)"

text \<open>
  \<^verbatim>\<open>Time.Format("2006-01-02 15:04:05")\<close> of \<^verbatim>\<open>time.Unix(t, 0)\<close> in UTC, for the years
  0 to 9999.
\<close>

definition format_time :: "int \<Rightarrow> bytes" where
  "format_time t =
     (case civil_from_days (t div 86400) of
        (y, m, d) \<Rightarrow>
          pad4 y @ S ''-'' @ pad2 m @ S ''-'' @ pad2 d @ S '' '' @ format_clock (t mod 86400))"

subsection \<open>The instance\<close>

definition std :: "rsa_key ext" where
  "std = \<lparr>ParseTorDocument = tokenize,
          FJoined = joined_first,
          Base32Encode = base32_encode,
          Base32Decode = base32_decode,
          InetPortFromByteString = port_of_bytes,
          CalcPermanentId = permanent_id,
          Hash = sha1,
          EncodePublicKeyDER = der_encode_key,
          DecodePublicKeyDER = der_decode_key,
          ParseIP = parse_ipv4,
          IP_String = ipv4_string,
          ParseInt = strconv_ParseInt,
          Sprint_int = fmt_int,
          Sprint_uint16 = fmt_uint16,
          Time_Format = format_time,
          pem_EncodeToMemory = pem_encode\<rparr>"

section \<open>The composites the round-trip claims speak of, and example inputs\<close>


text \<open>\<^verbatim>\<open>ParseOnionDescriptors(desc.Body() + signature block)\<close>.\<close>

definition parse_of_Body ::
  "'k ext \<Rightarrow> 'k OnionDescriptor \<Rightarrow> bytes
     \<Rightarrow> failure + 'k OnionDescriptor list \<times> bytes \<times> string list" where
  "parse_of_Body X desc sig_block =
     (case Body X desc of
        Inl f \<Rightarrow> Inl f
      | Inr b \<Rightarrow> ParseOnionDescriptors X (b @ sig_block))"


definition key_A :: rsa_key where
  "key_A = (3233, 17)"

definition key_B :: rsa_key where
  "key_B = (2773, 65537)"

definition identity_A :: bytes where
  "identity_A = [1, 2, 3, 4, 5, 6, 7, 8, 9, 10, 11, 12, 13, 14, 15, 16, 17, 18, 19, 20]"

definition intro_A :: "rsa_key IntroductionPoint" where
  "intro_A = \<lparr>Identity = identity_A,
               InternetAddress = [0, 0, 0, 0, 0, 0, 0, 0, 0, 0, 0xff, 0xff, 10, 0, 0, 1],
               OnionPort = 9001, OnionKey = Some key_A, ServiceKey = Some key_B\<rparr>"


definition intro_C :: "rsa_key IntroductionPoint" where
  "intro_C = \<lparr>Identity = [255],
               InternetAddress = [0, 0, 0, 0, 0, 0, 0, 0, 0, 0, 0xff, 0xff, 192, 168, 1, 20],
               OnionPort = 443, OnionKey = Some key_B, ServiceKey = Some key_A\<rparr>"

definition pem_key_A :: bytes where
  "pem_key_A = S ''-----BEGIN RSA PUBLIC KEY-----'' @ NL @ S ''MAcCAgyhAgER'' @ NL
                 @ S ''-----END RSA PUBLIC KEY-----'' @ NL"

definition pem_key_B :: bytes where
  "pem_key_B = S ''-----BEGIN RSA PUBLIC KEY-----'' @ NL @ S ''MAkCAgrVAgMBAAE='' @ NL
                 @ S ''-----END RSA PUBLIC KEY-----'' @ NL"

text \<open>Three records; the port of the second is out of range.\<close>

definition batch_text :: bytes where
  "batch_text =
     S ''introduction-point aebagbafaydqqcikbmga2dqpcaireeyu'' @ NL
     @ S ''ip-address 10.0.0.1'' @ NL
     @ S ''onion-port 9001'' @ NL
     @ S ''onion-key'' @ NL @ pem_key_A
     @ S ''service-key'' @ NL @ pem_key_B
     @ S ''introduction-point ae======'' @ NL
     @ S ''ip-address 10.0.0.2'' @ NL
     @ S ''onion-port 70000'' @ NL
     @ S ''onion-key'' @ NL @ pem_key_A
     @ S ''service-key'' @ NL @ pem_key_A
     @ S ''introduction-point 74======'' @ NL
     @ S ''ip-address 192.168.1.20'' @ NL
     @ S ''onion-port 443'' @ NL
     @ S ''onion-key'' @ NL @ pem_key_B
     @ S ''service-key'' @ NL @ pem_key_A"

definition desc_A :: "rsa_key OnionDescriptor" where
  "desc_A = \<lparr>DescId = [1, 2, 3, 4, 5], Version = 2, PermanentKey = Some key_A,
              SecretIdPart = [255], PublicationTime = 1477900800,
              ProtocolVersions = [2, 3], IntroductionPoints = [], Signature = []\<rparr>"

definition desc_B :: "rsa_key OnionDescriptor" where
  "desc_B = \<lparr>DescId = identity_A, Version = 2, PermanentKey = Some key_A,
              SecretIdPart = [255], PublicationTime = 1477900800,
              ProtocolVersions = [2, 3], IntroductionPoints = [intro_A], Signature = []\<rparr>"

definition body_A :: bytes where
  "body_A =
     S ''rendezvous-service-descriptor aebagbaf'' @ NL
     @ S ''version 2'' @ NL
     @ S ''permanent-key'' @ NL @ pem_key_A
     @ S ''secret-id-part 74======'' @ NL
     @ S ''publication-time 2016-10-31 08:00:00'' @ NL
     @ S ''protocol-versions 2,3'' @ NL
     @ S ''signature'' @ NL"

definition signature_block_A :: bytes where
  "signature_block_A = S ''-----BEGIN SIGNATURE-----'' @ NL @ S ''AQID'' @ NL
                         @ S ''-----END SIGNATURE-----'' @ NL"

text \<open>A record with the descriptor marker, a version and a key, and no signature field.\<close>

definition unsigned_text :: bytes where
  "unsigned_text =
     S ''rendezvous-service-descriptor aebagbaf'' @ NL
     @ S ''version 2'' @ NL
     @ S ''permanent-key'' @ NL @ pem_key_A"

definition unsigned_doc :: TorDocument where
  "unsigned_doc =
     [S ''rendezvous-service-descriptor'' \<mapsto> [[S ''aebagbaf'']],
      S ''version'' \<mapsto> [[S ''2'']],
      S ''permanent-key'' \<mapsto> [[[48, 7, 2, 2, 12, 161, 2, 1, 17]]]]"

section \<open>Properties of the hash\<close>

lemma length_be32: "length (be32 w) = 4"
  by (simp add: be32_def)

lemma length_sha1: "length (sha1 m) = 20"
proof -
  obtain a b c d e where
    "blocks (0x67452301, 0xEFCDAB89, 0x98BADCFE, 0x10325476, 0xC3D2E1F0) (sha1_pad m)
       = (a, b, c, d, e)"
    using prod_cases5 by blast
  then show ?thesis
    by (simp add: sha1_def length_be32)
qed

section \<open>The time period in 32-bit arithmetic\<close>

lemma unat_time_period:
  "unat (time_period_int (ucast (b0 :: byte)) t) = timePeriod_spec (unat b0) t"
proof -
  have b: "unat b0 < 256" using unsigned_less [of b0] by simp
  have u: "unat (ucast b0 :: uint32) = unat b0"
    using b by (simp add: unsigned_ucast_eq take_bit_eq_mod)
  have m: "unat ((ucast b0 :: uint32) * 86400) = unat b0 * 86400"
    using b by (simp add: unat_word_ariths u)
  have d: "unat ((ucast b0 :: uint32) * 86400 div 256) = unat b0 * 86400 div 256"
    by (simp add: unat_div m)
  have w: "unat (word_of_int t :: uint32) = nat (t mod 2 ^ 32)"
    by (simp add: unat_eq_nat_uint uint_word_of_int)
  have s: "unat (word_of_int t + (ucast b0 :: uint32) * 86400 div 256)
             = (nat (t mod 2 ^ 32) + unat b0 * 86400 div 256) mod 2 ^ 32"
    by (simp only: unat_word_ariths(1) d w) simp
  have "unat ((word_of_int t + (ucast b0 :: uint32) * 86400 div 256) div 86400)
          = unat (word_of_int t + (ucast b0 :: uint32) * 86400 div 256) div 86400"
    by (simp only: unat_div) simp
  then show ?thesis
    unfolding time_period_int_def timePeriod_spec_def by (simp only: s)
qed

lemma ucast_byte: "(ucast (w :: uint32) :: byte) = of_nat (unat w mod 256)"
  by (simp add: word_eq_iff_unsigned [where ?'a = nat] unsigned_ucast_eq take_bit_eq_mod
      unat_of_nat)

lemma be32_bigEndian4: "be32 w = bigEndian4_spec (unat w)"
  unfolding be32_def bigEndian4_spec_def
  by (simp add: ucast_byte unat_drop_bit_eq drop_bit_eq_div unat_div)

lemma timePeriod_timeSum: "timePeriod_spec b0 t = timeSum_spec b0 t div 86400"
  by (simp add: timePeriod_spec_def timeSum_spec_def)

lemma timeSum_less: "timeSum_spec b0 t < 4294967296"
  by (simp add: timeSum_spec_def)

lemma timeSum_next_day:
  "timeSum_spec b0 (t + 86400) = (timeSum_spec b0 t + 86400) mod 2 ^ 32"
proof -
  let ?a = "nat (t mod 2 ^ 32)" and ?o = "b0 * 86400 div 256"
  have "(t + 86400) mod 2 ^ 32 = (t mod 2 ^ 32 + 86400) mod 2 ^ 32"
    by (simp only: mod_add_left_eq)
  moreover have "0 \<le> t mod 2 ^ 32" by simp
  ultimately have n: "nat ((t + 86400) mod 2 ^ 32) = (?a + 86400) mod 2 ^ 32"
    by (simp add: nat_mod_distrib nat_add_distrib)
  have 1: "((?a + 86400) mod 2 ^ 32 + ?o) mod 2 ^ 32 = (?a + 86400 + ?o) mod 2 ^ 32"
    by (rule mod_add_left_eq)
  have 2: "((?a + ?o) mod 2 ^ 32 + 86400) mod 2 ^ 32 = (?a + ?o + 86400) mod 2 ^ 32"
    by (rule mod_add_left_eq)
  have 3: "?a + 86400 + ?o = ?a + ?o + 86400" by simp
  show ?thesis
    unfolding timeSum_spec_def n 1 2 3 by (rule refl)
qed

lemma timePeriod_next_day_iff:
  "timePeriod_spec b0 (t + 86400) = timePeriod_spec b0 t + 1
     \<longleftrightarrow> timeSum_spec b0 t + 86400 < 2 ^ 32"
proof (cases "timeSum_spec b0 t + 86400 < 4294967296")
  case True
  then have "(timeSum_spec b0 t + 86400) mod 2 ^ 32 = timeSum_spec b0 t + 86400" by simp
  then have "timePeriod_spec b0 (t + 86400) = (timeSum_spec b0 t + 86400) div 86400"
    by (simp only: timePeriod_timeSum timeSum_next_day)
  then show ?thesis using True by (simp add: timePeriod_timeSum)
next
  case False
  let ?x = "timeSum_spec b0 t"
  have x: "?x < 4294967296" by (rule timeSum_less)
  have "(?x + 86400) mod 4294967296 = ?x + 86400 - 4294967296"
    using False x by (simp add: mod_if)
  then have "(?x + 86400) mod 2 ^ 32 < 86400" using x by simp
  then have "timePeriod_spec b0 (t + 86400) = 0"
    by (simp only: timePeriod_timeSum timeSum_next_day div_less)
  then show ?thesis using False by simp
qed


section \<open>Claims about the identifier derivation\<close>

text \<open>
  C1. For a permanent id with first byte \<open>b0\<close>, any Unix time \<open>t\<close> and replica byte
  \<open>r\<close>, \<open>calcSecretId\<close> returns the SHA-1 hash, 20 bytes long, of the four big-endian
  bytes of the time period followed by \<open>r\<close>, where the time period is
  \<open>(t + b0 * 86400 / 256) / 86400\<close> in 32-bit unsigned arithmetic.
\<close>

theorem calcSecretId_spec:
  "calcSecretId (b0 # rest) t r
     = Inr (sha1 (bigEndian4_spec (timePeriod_spec (unat b0) t) @ [r]))
   \<and> length (sha1 (bigEndian4_spec (timePeriod_spec (unat b0) t) @ [r])) = 20"
  by (simp add: calcSecretId_def sha1_New_def sha1_Write_def sha1_Sum_def
      be32_bigEndian4 unat_time_period length_sha1)

text \<open>
  C2. \<open>calcDescriptorId\<close> returns the SHA-1 hash, 20 bytes long, of the permanent id
  followed by the secret id part.
\<close>

theorem calcDescriptorId_spec:
  "calcDescriptorId perm_id secret_id = sha1 (perm_id @ secret_id)
   \<and> length (calcDescriptorId perm_id secret_id) = 20"
  by (simp add: calcDescriptorId_def sha1_New_def sha1_Write_def sha1_Sum_def length_sha1)

text \<open>
  C7, as the code has it. For every permanent id with first byte \<open>b0\<close> and every Unix
  time \<open>t\<close>, the time period one day later is one greater exactly when adding a day to
  the 32-bit sum \<open>uint32(t) + b0 * 86400 / 256\<close> does not wrap around, that is when
  the sum is below \<open>2 ^ 32 - 86400\<close>.
\<close>

theorem time_period_next_day:
  "time_period_int (ucast (b0::byte)) (t + 86400) = time_period_int (ucast b0) t + 1
     \<longleftrightarrow> timeSum_spec (unat b0) t + 86400 < 2 ^ 32"
proof -
  have "timePeriod_spec (unat b0) t \<le> 4294967295 div 86400"
    unfolding timePeriod_spec_def by (rule div_le_mono) simp
  then have l: "unat (time_period_int (ucast b0) t) + 1 < 2 ^ 32"
    by (simp add: unat_time_period)
  have "time_period_int (ucast b0) (t + 86400) = time_period_int (ucast b0) t + 1
        \<longleftrightarrow> unat (time_period_int (ucast b0) (t + 86400))
              = unat (time_period_int (ucast b0) t + 1)"
    by (simp only: word_unat_eq_iff)
  also have "\<dots> \<longleftrightarrow> timePeriod_spec (unat b0) (t + 86400) = timePeriod_spec (unat b0) t + 1"
    using l by (simp add: unat_time_period unat_word_ariths)
  finally show ?thesis by (simp only: timePeriod_next_day_iff)
qed

theorem time_period_next_day_witness:
  "timeSum_spec (unat (255::byte)) 4294927295 + 86400 < 2 ^ 32
   \<and> time_period_int (ucast (255::byte)) 4294927295 = 0
   \<and> time_period_int (ucast (255::byte)) (4294927295 + 86400) = 0 + 1"
  using time_period_next_day [of 255 4294927295]
  by (simp add: time_period_int_def timeSum_spec_def)

text \<open>
  C7 as stated fails where the 32-bit sum wraps around: at \<open>t = 2 ^ 32 - 1\<close> and first
  byte 0 the time period is 49710, and one day later it is 0.
\<close>

theorem time_period_wraps_counterexample:
  "time_period_int (ucast (0::byte)) 4294967295 = 49710
   \<and> time_period_int (ucast (0::byte)) (4294967295 + 86400) = 0
   \<and> time_period_int (ucast (0::byte)) (4294967295 + 86400)
       \<noteq> time_period_int (ucast (0::byte)) 4294967295 + 1"
  by (simp add: time_period_int_def)

section \<open>Evaluating the instance\<close>

lemmas encode_eval =
  std_def S_def NL_def Let_def Encode_def Body_def pem_encode_def fmt_uint16_def fmt_int_def
  ipv4_string_def v4InV6Prefix_def der_encode_key_def der_integer_def der_len_def
  b32_chars_def b32c_def b64c_def decimal.simps wrap64.simps be_bytes.simps
  format_time_def pad2_def pad4_def format_clock_def civil_from_days_def ymd_of_era_def
  ymd_of_doe_def ymd_of_yoe_def ymd_of_doy_def ymd_of_mp_def

lemmas decode_eval =
  ParseIntroPoints_def parseIntroPoint_def tokenize_def fields_of.simps is_prefix_def
  add_field_def field_def joined_first_def b32_ungroup_def b32i_def b64i_def
  port_of_bytes_def parse_digits_def is_digit_def digits_value_def parse_ipv4_def
  parse_octet_def der_decode_key_def der_read_def der_read_len_def der_read_integer_def
  be_value_def strconv_ParseInt_def ParseOnionDescriptors_def parseOnionDescriptor_def

lemmas example_defs =
  key_A_def key_B_def identity_A_def intro_A_def intro_C_def pem_key_A_def pem_key_B_def
  batch_text_def desc_A_def body_A_def signature_block_A_def unsigned_text_def
  unsigned_doc_def

lemma Body_desc_A: "Body std desc_A = Inr body_A"
  by (simp add: encode_eval example_defs)

lemma tokenize_unsigned_text: "tokenize unsigned_text = ([unsigned_doc], [])"
  by (simp add: encode_eval decode_eval example_defs)


section \<open>The loops over the records\<close>

lemma invalid_port_skipped:
  assumes "InetPortFromByteString X (FJoined X (field doc (S ''onion-port''))) = None"
  shows "\<exists>msg. parseIntroPoint X doc = Inl msg"
  using assms by (simp add: parseIntroPoint_def split: option.splits prod.splits)

lemma invalid_port_message:
  assumes "doc (S ''introduction-point'') \<noteq> None"
    and "Base32Decode X (FJoined X (field doc (S ''introduction-point''))) = Some i"
    and "ParseIP X (FJoined X (field doc (S ''ip-address''))) = Some a"
    and "InetPortFromByteString X (FJoined X (field doc (S ''onion-port''))) = None"
  shows "parseIntroPoint X doc = Inl ''Error parsing IP port''"
  using assms by (simp add: parseIntroPoint_def)

lemma empty_signature_skipped:
  assumes "doc (S ''rendezvous-service-descriptor'') \<noteq> None"
    and "ParseInt X (FJoined X (field doc (S ''version''))) = Some v"
    and "DecodePublicKeyDER X (FJoined X (field doc (S ''permanent-key''))) = Some (k, r)"
    and "doc (S ''signature'') = Some ([] # es)"
  shows "\<exists>log. parseOnionDescriptor X doc = Inr (Skip (log @ [''Empty signature'']))"
  using assms by (simp add: parseOnionDescriptor_def field_def split: prod.splits)



section \<open>Base 64 and its inverse\<close>







lemma m64: "(A * 65536 + B * 256 + C) mod 64 = C mod (64::nat)"
proof -
  have "A * 65536 + B * 256 + C = (A * 1024 + B * 4) * 64 + C" by simp
  then show ?thesis by (simp only: mod_mult_self3)
qed

lemma d4096: "(A * 65536 + B * 256 + C) div 4096 = A * 16 + (B * 256 + C) div (4096::nat)"
proof -
  have "A * 65536 + B * 256 + C = (A * 16) * 4096 + (B * 256 + C)" by simp
  then show ?thesis by (simp only: div_mult_self3)
qed










section \<open>The tokenizer on the lines that Encode writes\<close>






















section \<open>Claims about the codec\<close>

text \<open>
  C5. When the tokenizer gives three records of which the first and the third parse to
  \<open>ip1\<close> and \<open>ip3\<close> and the port field of the second is rejected, \<open>ParseIntroPoints\<close>
  returns exactly \<open>ip1\<close> and \<open>ip3\<close>, in this order, with the rest of the input, and
  logs one message for the second record.
\<close>

theorem ParseIntroPoints_isolates_invalid_port:
  assumes "ParseTorDocument X s = ([d1, d2, d3], rest)"
    and "parseIntroPoint X d1 = Inr ip1"
    and "InetPortFromByteString X (FJoined X (field d2 (S ''onion-port''))) = None"
    and "parseIntroPoint X d3 = Inr ip3"
  shows "\<exists>msg. ParseIntroPoints X s = ([ip1, ip3], rest, [msg])"
proof -
  obtain msg where "parseIntroPoint X d2 = Inl msg"
    using invalid_port_skipped [OF assms(3)] by blast
  then have "ParseIntroPoints X s = ([ip1, ip3], rest, [msg])"
    using assms by (simp add: ParseIntroPoints_def)
  then show ?thesis by blast
qed

theorem ParseIntroPoints_isolates_invalid_port_witness:
  "ParseTorDocument std batch_text
     = ([fst (tokenize batch_text) ! 0, fst (tokenize batch_text) ! 1,
         fst (tokenize batch_text) ! 2], [])
   \<and> parseIntroPoint std (fst (tokenize batch_text) ! 0) = Inr intro_A
   \<and> FJoined std (field (fst (tokenize batch_text) ! 1) (S ''onion-port'')) = S ''70000''
   \<and> InetPortFromByteString std (S ''70000'') = None
   \<and> parseIntroPoint std (fst (tokenize batch_text) ! 2) = Inr intro_C
   \<and> ParseIntroPoints std batch_text = ([intro_A, intro_C], [], [''Error parsing IP port''])"
proof -
  have t: "\<exists>d1 d2 d3. tokenize batch_text = ([d1, d2, d3], [])
            \<and> parseIntroPoint std d1 = Inr intro_A
            \<and> FJoined std (field d2 (S ''onion-port'')) = S ''70000''
            \<and> parseIntroPoint std d2 = Inl ''Error parsing IP port''
            \<and> parseIntroPoint std d3 = Inr intro_C"
    by (simp add: encode_eval decode_eval example_defs)
  then obtain d1 d2 d3 where d: "tokenize batch_text = ([d1, d2, d3], [])"
    and p1: "parseIntroPoint std d1 = Inr intro_A"
    and f2: "FJoined std (field d2 (S ''onion-port'')) = S ''70000''"
    and p2: "parseIntroPoint std d2 = Inl ''Error parsing IP port''"
    and p3: "parseIntroPoint std d3 = Inr intro_C"
    by blast
  have port: "InetPortFromByteString std (S ''70000'') = None"
    by (simp add: encode_eval decode_eval)
  have tok: "ParseTorDocument std batch_text = ([d1, d2, d3], [])"
    using d by (simp add: std_def)
  have "\<exists>msg. ParseIntroPoints std batch_text = ([intro_A, intro_C], [], [msg])"
    using ParseIntroPoints_isolates_invalid_port [of std batch_text d1 d2 d3 "[]" intro_A intro_C]
      tok p1 p3 f2 port by simp
  moreover have "ParseIntroPoints std batch_text
                   = ([intro_A, intro_C], [], [''Error parsing IP port''])"
    using tok p1 p2 p3 by (simp add: ParseIntroPoints_def)
  ultimately show ?thesis
    using d tok p1 p3 f2 port by simp
qed

text \<open>
  C6. \<open>Body\<close> is a function of the descriptor value (and of the collaborators), and it
  does not read the signature: descriptors that differ only in \<open>Signature\<close> have the same
  body, or fail in the same way.
\<close>

theorem Body_ignores_Signature: "Body X (desc\<lparr>Signature := s\<rparr>) = Body X desc"
  by (simp add: Body_def Let_def split: option.splits)

text \<open>
  C8. When \<open>Body\<close> returns the bytes \<open>descBody\<close>, \<open>Sign\<close> calls the callback on their
  digest. If the callback returns a signature and no error, \<open>Sign\<close> returns \<open>descBody\<close>
  followed by the PEM block of type SIGNATURE around the signature; if it returns an error,
  \<open>Sign\<close> returns nothing: \<^verbatim>\<open>log.Fatalf\<close> ends the process. When \<open>Body\<close> itself
  fails, \<open>Sign\<close> fails in the same way and the callback is not called.
\<close>

theorem Sign_spec:
  "(Body X desc = Inr descBody
      \<and> doSign (CalcDescriptorBodyDigest X descBody) = (sig, None)
      \<longrightarrow> Sign X desc doSign = Inr (descBody @ pem_EncodeToMemory X ''SIGNATURE'' sig))
   \<and> (Body X desc = Inr descBody
      \<and> doSign (CalcDescriptorBodyDigest X descBody) = (sig, Some err)
      \<longrightarrow> Sign X desc doSign = Inl Fatal)
   \<and> (Body X desc = Inl f \<longrightarrow> Sign X desc doSign = Inl f)"
  by (simp add: Sign_def encodeSignature_def)

theorem Sign_spec_witness:
  "Body std desc_A = Inr body_A
   \<and> Sign std desc_A (\<lambda>digest. ([1, 2, 3], None)) = Inr (body_A @ signature_block_A)
   \<and> Sign std desc_A (\<lambda>digest. ([], Some ''no key'')) = Inl Fatal
   \<and> Body std (desc_A\<lparr>PermanentKey := None\<rparr>) = Inl Fatal
   \<and> Sign std (desc_A\<lparr>PermanentKey := None\<rparr>) (\<lambda>digest. ([1, 2, 3], None)) = Inl Fatal"
proof -
  have b: "Body std (desc_A\<lparr>PermanentKey := None\<rparr>) = Inl Fatal"
    by (simp add: Body_def std_def der_encode_key_def)
  have p: "pem_EncodeToMemory std ''SIGNATURE'' [1, 2, 3] = signature_block_A"
    by (simp add: std_def pem_encode_def signature_block_A_def b64c_def wrap64.simps S_def
        NL_def)
  show ?thesis
    using Sign_spec [of std desc_A body_A "\<lambda>digest. ([1, 2, 3], None)" "[1, 2, 3]" "''x''" Fatal]
          Sign_spec [of std desc_A body_A "\<lambda>digest. ([], Some ''no key'')" "[]" "''no key''"
            Fatal]
          Sign_spec [of std "desc_A\<lparr>PermanentKey := None\<rparr>" body_A
            "\<lambda>digest. ([1, 2, 3], None)" "[1, 2, 3]" "''x''" Fatal]
          Body_desc_A b p
    by simp
qed




text \<open>
  C10. A record with the descriptor marker, a version that parses and a permanent key
  that decodes, and with no signature field, is not skipped: \<^verbatim>\<open>doc["signature"][0]\<close>
  indexes an empty sequence of entries and \<open>ParseOnionDescriptors\<close> panics.
\<close>

theorem ParseOnionDescriptors_missing_signature:
  assumes "ParseTorDocument X s = (doc # docs, rest)"
    and "doc (S ''rendezvous-service-descriptor'') \<noteq> None"
    and "ParseInt X (FJoined X (field doc (S ''version''))) = Some v"
    and "DecodePublicKeyDER X (FJoined X (field doc (S ''permanent-key''))) = Some (k, r)"
    and "doc (S ''signature'') = None"
  shows "ParseOnionDescriptors X s = Inl IndexOutOfRange"
proof -
  have "parseOnionDescriptor X doc = Inl IndexOutOfRange"
    using assms(2-5) by (simp add: parseOnionDescriptor_def field_def split: prod.splits)
  then show ?thesis using assms(1) by (simp add: ParseOnionDescriptors_def)
qed

theorem ParseOnionDescriptors_missing_signature_witness:
  "ParseTorDocument std unsigned_text = ([unsigned_doc], [])
   \<and> unsigned_doc (S ''rendezvous-service-descriptor'') \<noteq> None
   \<and> ParseInt std (FJoined std (field unsigned_doc (S ''version''))) = Some 2
   \<and> DecodePublicKeyDER std (FJoined std (field unsigned_doc (S ''permanent-key'')))
       = Some (key_A, [])
   \<and> unsigned_doc (S ''signature'') = None
   \<and> ParseOnionDescriptors std unsigned_text = Inl IndexOutOfRange"
proof -
  have 1: "ParseTorDocument std unsigned_text = ([unsigned_doc], [])"
    using tokenize_unsigned_text by (simp add: std_def)
  have 2: "unsigned_doc (S ''rendezvous-service-descriptor'') \<noteq> None"
    by (simp add: unsigned_doc_def S_def)
  have 3: "ParseInt std (FJoined std (field unsigned_doc (S ''version''))) = Some 2"
    by (simp add: unsigned_doc_def encode_eval decode_eval)
  have 4: "DecodePublicKeyDER std (FJoined std (field unsigned_doc (S ''permanent-key'')))
             = Some (key_A, [])"
    by (simp add: unsigned_doc_def encode_eval decode_eval key_A_def)
  have 5: "unsigned_doc (S ''signature'') = None"
    by (simp add: unsigned_doc_def S_def)
  show ?thesis
    using ParseOnionDescriptors_missing_signature [OF 1 2 3 4 5] 1 2 3 4 5 by simp
qed



text \<open>
  The descriptor id on the way out and on the way in: \<open>Body\<close> writes it in base 32
  after the marker, \<open>ParseOnionDescriptors\<close> stores the text of that field as it is,
  and \<open>ParseIntroPoints\<close> decodes the identity of an introduction point from base 32.
\<close>

lemma Body_writes_DescId_in_base32:
  assumes "Body X desc = Inr b"
  shows "\<exists>r. b = S ''rendezvous-service-descriptor '' @ Base32Encode X (DescId desc) @ NL @ r"
  using assms
  by (auto simp add: Body_def Let_def split: option.splits if_splits sum.splits)

lemma parsed_DescId_is_field_text:
  assumes "parseOnionDescriptor X doc = Inr (Got desc log)"
  shows "DescId desc = FJoined X (field doc (S ''rendezvous-service-descriptor''))"
  using assms
  by (auto simp add: parseOnionDescriptor_def Let_def
      split: option.splits if_splits prod.splits list.splits)

lemma parsed_Identity_is_decoded:
  assumes "parseIntroPoint X doc = Inr ip"
  shows "Base32Decode X (FJoined X (field doc (S ''introduction-point''))) = Some (Identity ip)"
  using assms
  by (auto simp add: parseIntroPoint_def split: option.splits if_splits prod.splits)

text \<open>
  C4 fails on the code: the descriptor id is not recovered. At the descriptor \<open>desc_B\<close>,
  with one introduction point, parsing the body followed by a signature block gives back
  the version, the key and the introduction point, and as descriptor id the 32 characters
  of the base 32 text instead of the 20 bytes.
\<close>

theorem parse_of_Body_DescId_not_recovered:
  "parse_of_Body std desc_B signature_block_A =
     Inr ([\<lparr>DescId = S ''aebagbafaydqqcikbmga2dqpcaireeyu'', Version = 2,
             PermanentKey = Some key_A, SecretIdPart = [], PublicationTime = - 62135596800,
             ProtocolVersions = [], IntroductionPoints = [intro_A],
             Signature = [1, 2, 3]\<rparr>], [], [])
   \<and> DescId desc_B = identity_A
   \<and> length (DescId desc_B) = 20
   \<and> length (S ''aebagbafaydqqcikbmga2dqpcaireeyu'') = 32"
  by (simp add: parse_of_Body_def encode_eval decode_eval example_defs desc_B_def)

end
